theory Spec2Isabelle
  imports Complex_Main "HOL-Library.AList" "HOL-Library.Multiset"
begin

section \<open>Python values and the builtins the quiz code calls\<close>

text \<open>
  The quiz application stores its questions as JSON and rebuilds them with
  \<^verbatim>\<open>Question.from_dict\<close>. A value read from the file is \<open>None\<close>, a bool, an int, a
  str, a list or a dict with str keys; numbers with a fractional part are not represented.
  A dict is an association list in insertion order, read with \<open>map_of\<close> and written with
  \<open>AList.update\<close> (a new key goes to the end, an old key keeps its place, as in Python).
  A str is a \<open>string\<close>; case mapping and whitespace follow Python on ASCII, and a
  character outside ASCII is left alone by both.
\<close>

datatype pyval =
    PNone
  | PBool bool
  | PInt int
  | PStr string
  | PList "pyval list"
  | PDict "(string \<times> pyval) list"

type_synonym dict = "(string \<times> pyval) list"

datatype py_error = ValueError | TypeError | AttributeError | IndexError

text \<open>\<^verbatim>\<open>d.get(k, default)\<close>; \<^verbatim>\<open>d.get(k)\<close> is \<open>dict_get d k PNone\<close>.\<close>

definition dict_get :: "dict \<Rightarrow> string \<Rightarrow> pyval \<Rightarrow> pyval" where
  "dict_get d k dflt = (case map_of d k of None \<Rightarrow> dflt | Some v \<Rightarrow> v)"

text \<open>Truth value of a Python object, as \<^verbatim>\<open>bool(x)\<close>, \<^verbatim>\<open>x or y\<close> and \<^verbatim>\<open>not x\<close> use it.\<close>

fun truthy :: "pyval \<Rightarrow> bool" where
  "truthy PNone = False"
| "truthy (PBool b) = b"
| "truthy (PInt i) = (i \<noteq> 0)"
| "truthy (PStr s) = (s \<noteq> [])"
| "truthy (PList xs) = (xs \<noteq> [])"
| "truthy (PDict kvs) = (kvs \<noteq> [])"

definition py_or :: "pyval \<Rightarrow> pyval \<Rightarrow> pyval" where
  "py_or x y = (if truthy x then x else y)"

text \<open>The characters \<^verbatim>\<open>str.strip()\<close> and \<^verbatim>\<open>int()\<close> treat as whitespace (ASCII).\<close>

definition is_space :: "char \<Rightarrow> bool" where
  "is_space c = (c \<in> set [CHR 0x09, CHR 0x0A, CHR 0x0B, CHR 0x0C, CHR 0x0D,
                          CHR 0x1C, CHR 0x1D, CHR 0x1E, CHR 0x1F, CHR 0x20])"

definition strip :: "string \<Rightarrow> string" where
  "strip s = rev (dropWhile is_space (rev (dropWhile is_space s)))"

definition lower_char :: "char \<Rightarrow> char" where
  "lower_char c =
     (case map_of (zip ''ABCDEFGHIJKLMNOPQRSTUVWXYZ'' ''abcdefghijklmnopqrstuvwxyz'') c of
        Some l \<Rightarrow> l
      | None \<Rightarrow> c)"

definition lower :: "string \<Rightarrow> string" where
  "lower s = map lower_char s"

text \<open>
  A method of \<^verbatim>\<open>str\<close> called on an arbitrary object: any other object has no such
  attribute and the call raises \<^verbatim>\<open>AttributeError\<close>.
\<close>

fun py_lower :: "pyval \<Rightarrow> py_error + string" where
  "py_lower (PStr s) = Inr (lower s)"
| "py_lower _ = Inl AttributeError"


text \<open>
  \<^verbatim>\<open>int(x)\<close>. A str is stripped of whitespace, then an optional sign and decimal digits
  follow, where single underscores may separate digits; anything else raises
  \<^verbatim>\<open>ValueError\<close>. \<open>None\<close>, a list and a dict raise \<^verbatim>\<open>TypeError\<close>. (The interpreter's
  limit on the number of digits of a str is not modelled.)
\<close>

definition digit_val :: "char \<Rightarrow> nat option" where
  "digit_val c = map_of (zip ''0123456789'' [0, 1, 2, 3, 4, 5, 6, 7, 8, 9]) c"

fun parse_digits :: "string \<Rightarrow> nat \<Rightarrow> nat option" where
  "parse_digits [] acc = Some acc"
| "parse_digits (c # cs) acc =
     (case digit_val c of
        Some v \<Rightarrow> parse_digits cs (acc * 10 + v)
      | None \<Rightarrow>
          (if c = CHR ''_'' then
             (case cs of
                [] \<Rightarrow> None
              | c' # _ \<Rightarrow> (if digit_val c' = None then None else parse_digits cs acc))
           else None))"

definition parse_nat :: "string \<Rightarrow> nat option" where
  "parse_nat s =
     (case s of
        [] \<Rightarrow> None
      | c # _ \<Rightarrow> (if digit_val c = None then None else parse_digits s 0))"

definition int_of_str :: "string \<Rightarrow> int option" where
  "int_of_str s =
     (case strip s of
        [] \<Rightarrow> None
      | c # cs \<Rightarrow>
          (if c = CHR ''-'' then map_option (\<lambda>n. - int n) (parse_nat cs)
           else if c = CHR ''+'' then map_option int (parse_nat cs)
           else map_option int (parse_nat (c # cs))))"

fun py_int :: "pyval \<Rightarrow> py_error + int" where
  "py_int (PInt i) = Inr i"
| "py_int (PBool b) = Inr (if b then 1 else 0)"
| "py_int (PStr s) = (case int_of_str s of None \<Rightarrow> Inl ValueError | Some i \<Rightarrow> Inr i)"
| "py_int PNone = Inl TypeError"
| "py_int (PList xs) = Inl TypeError"
| "py_int (PDict kvs) = Inl TypeError"

text \<open>
  \<^verbatim>\<open>list(x)\<close>: a copy of a list, the characters of a str, the keys of a dict;
  \<open>None\<close>, a bool and an int are not iterable.
\<close>

fun py_list :: "pyval \<Rightarrow> py_error + pyval list" where
  "py_list (PList xs) = Inr xs"
| "py_list (PStr s) = Inr (map (\<lambda>c. PStr [c]) s)"
| "py_list (PDict kvs) = Inr (map (\<lambda>kv. PStr (fst kv)) kvs)"
| "py_list _ = Inl TypeError"

text \<open>
  \<^verbatim>\<open>str(x)\<close>: a str is itself; any other value is printed as \<^verbatim>\<open>repr\<close> prints it.
  Inside a list or a dict a str is quoted and escaped.
\<close>

fun nat_digits :: "nat \<Rightarrow> string" where
  "nat_digits n =
     (if n < 10 then [''0123456789'' ! n]
      else nat_digits (n div 10) @ [''0123456789'' ! (n mod 10)])"

definition int_str :: "int \<Rightarrow> string" where
  "int_str i = (if i < 0 then CHR ''-'' # nat_digits (nat (- i)) else nat_digits (nat i))"

definition escape_char :: "char \<Rightarrow> char \<Rightarrow> string" where
  "escape_char quote c =
     (if c = CHR 0x5C then [CHR 0x5C, CHR 0x5C]
      else if c = quote then [CHR 0x5C, quote]
      else if c = CHR 0x0A then [CHR 0x5C, CHR ''n'']
      else if c = CHR 0x0D then [CHR 0x5C, CHR ''r'']
      else if c = CHR 0x09 then [CHR 0x5C, CHR ''t'']
      else if (of_char c :: nat) < 32 \<or> c = CHR 0x7F then
        [CHR 0x5C, CHR ''x'', ''0123456789abcdef'' ! ((of_char c :: nat) div 16),
         ''0123456789abcdef'' ! ((of_char c :: nat) mod 16)]
      else [c])"

definition str_repr :: "string \<Rightarrow> string" where
  "str_repr s =
     (let quote = (if CHR 0x27 \<in> set s \<and> CHR 0x22 \<notin> set s then CHR 0x22 else CHR 0x27)
      in quote # concat (map (escape_char quote) s) @ [quote])"

fun join :: "string \<Rightarrow> string list \<Rightarrow> string" where
  "join sep [] = []"
| "join sep [x] = x"
| "join sep (x # y # ys) = x @ sep @ join sep (y # ys)"

fun py_repr :: "pyval \<Rightarrow> string" where
  "py_repr PNone = ''None''"
| "py_repr (PBool b) = (if b then ''True'' else ''False'')"
| "py_repr (PInt i) = int_str i"
| "py_repr (PStr s) = str_repr s"
| "py_repr (PList xs) = ''['' @ join '', '' (map py_repr xs) @ '']''"
| "py_repr (PDict kvs) =
     ''{'' @ join '', '' (map (\<lambda>kv. str_repr (fst kv) @ '': '' @ py_repr (snd kv)) kvs) @ ''}''"

fun py_str :: "pyval \<Rightarrow> string" where
  "py_str (PStr s) = s"
| "py_str v = py_repr v"

text \<open>Sequencing of calls that may raise: the first exception ends the evaluation.\<close>

definition and_then :: "py_error + 'a \<Rightarrow> ('a \<Rightarrow> py_error + 'b) \<Rightarrow> py_error + 'b" where
  "and_then r f = (case r of Inl e \<Rightarrow> Inl e | Inr x \<Rightarrow> f x)"

section \<open>The question entity (core/question.py)\<close>

text \<open>
  \<^verbatim>\<open>Question\<close> is a dataclass with two subclasses. The shared fields are a record; the
  subclass and its own fields are the field \<open>variant\<close>. \<^verbatim>\<open>from_dict\<close> converts \<open>id\<close>,
  the counters, \<open>active\<close> and the text fields with \<^verbatim>\<open>int\<close>, \<^verbatim>\<open>bool\<close> and \<^verbatim>\<open>str\<close>, so
  these always hold a value of the annotated type; the elements of \<open>options\<close> and
  \<open>explanation\<close> are stored as found, so they are arbitrary values (\<open>PNone\<close> is an
  absent explanation).
\<close>

datatype variant =
    MCQQuestion (options: "pyval list") (correct_answer: string) (explanation: pyval)
  | FreeformQuestion (reference_answer: string)

record Question =
  id' :: int
  topic :: string
  type :: string
  question :: string
  source :: string
  active :: bool
  times_shown :: int
  correct_count :: int
  incorrect_count :: int
  variant :: variant

definition is_mcq :: "Question \<Rightarrow> bool" where
  "is_mcq q = (case variant q of MCQQuestion _ _ _ \<Rightarrow> True | FreeformQuestion _ \<Rightarrow> False)"

text \<open>\<^verbatim>\<open>Question.as_dict\<close>, the serialization of the shared fields.\<close>

definition base_as_dict :: "Question \<Rightarrow> dict" where
  "base_as_dict q =
     [(''id'', PInt (id' q)),
      (''topic'', PStr (topic q)),
      (''type'', PStr (type q)),
      (''question'', PStr (question q)),
      (''source'', PStr (source q)),
      (''active'', PBool (active q)),
      (''times_shown'', PInt (times_shown q)),
      (''correct_count'', PInt (correct_count q)),
      (''incorrect_count'', PInt (incorrect_count q))]"

text \<open>
  \<^verbatim>\<open>MCQQuestion.as_dict\<close> and \<^verbatim>\<open>FreeformQuestion.as_dict\<close>: the subclass extends the base
  dict; \<open>explanation\<close> is written only when it is not \<open>None\<close>.
\<close>

definition as_dict :: "Question \<Rightarrow> dict" where
  "as_dict q =
     (case variant q of
        MCQQuestion opts answer expl \<Rightarrow>
          (let data = AList.update ''correct_answer'' (PStr answer)
                        (AList.update ''options'' (PList opts) (base_as_dict q))
           in if expl \<noteq> PNone then AList.update ''explanation'' expl data else data)
      | FreeformQuestion ref \<Rightarrow>
          AList.update ''reference_answer'' (PStr ref) (base_as_dict q))"

text \<open>
  \<^verbatim>\<open>Question.from_dict\<close>. The conversions run in the order of the source: the type tag,
  then the keyword arguments \<open>id\<close>, \<open>times_shown\<close>, \<open>correct_count\<close>, \<open>incorrect_count\<close>
  (\<^verbatim>\<open>str\<close> and \<^verbatim>\<open>bool\<close> never raise), then \<open>options\<close> for a multiple-choice record.
\<close>

definition base_kwargs :: "dict \<Rightarrow> string \<Rightarrow> int \<Rightarrow> int \<Rightarrow> int \<Rightarrow> int \<Rightarrow> variant \<Rightarrow> Question" where
  "base_kwargs dictionary qtype qid shown correct incorrect v =
     \<lparr>id' = qid,
      topic = py_str (dict_get dictionary ''topic'' (PStr '''')),
      type = qtype,
      question = py_str (dict_get dictionary ''question'' (PStr '''')),
      source = py_str (dict_get dictionary ''source'' (PStr ''LLM'')),
      active = truthy (dict_get dictionary ''active'' (PBool True)),
      times_shown = shown,
      correct_count = correct,
      incorrect_count = incorrect,
      variant = v\<rparr>"

definition from_dict :: "dict \<Rightarrow> py_error + Question" where
  "from_dict dictionary =
     and_then (py_lower (py_or (dict_get dictionary ''type'' PNone) (PStr ''''))) (\<lambda>qtype.
     and_then (py_int (dict_get dictionary ''id'' (PInt 0))) (\<lambda>qid.
     and_then (py_int (dict_get dictionary ''times_shown'' (PInt 0))) (\<lambda>shown.
     and_then (py_int (dict_get dictionary ''correct_count'' (PInt 0))) (\<lambda>correct.
     and_then (py_int (dict_get dictionary ''incorrect_count'' (PInt 0))) (\<lambda>incorrect.
       if qtype = ''multiple-choice'' then
         and_then (py_list (py_or (dict_get dictionary ''options'' (PList [])) (PList [])))
           (\<lambda>opts. Inr (base_kwargs dictionary qtype qid shown correct incorrect
              (MCQQuestion opts
                 (py_str (dict_get dictionary ''correct_answer'' (PStr '''')))
                 (dict_get dictionary ''explanation'' PNone))))
       else
         Inr (base_kwargs dictionary qtype qid shown correct incorrect
              (FreeformQuestion
                 (py_str (dict_get dictionary ''reference_answer'' (PStr ''''))))))))))"

section \<open>Identifiers (persistence/file\_handler.py)\<close>

text \<open>
  \<^verbatim>\<open>get_next_id\<close>: the loop keeps the largest id seen, starting from 0; the
  \<^verbatim>\<open>try\<close>/\<^verbatim>\<open>except Exception\<close> around \<^verbatim>\<open>int(question.get("id", 0))\<close> skips a record
  whose id does not convert.
\<close>

fun max_id_loop :: "dict list \<Rightarrow> int \<Rightarrow> int" where
  "max_id_loop [] max_id = max_id"
| "max_id_loop (q # rest) max_id =
     (case py_int (dict_get q ''id'' (PInt 0)) of
        Inr qid \<Rightarrow> max_id_loop rest (if qid > max_id then qid else max_id)
      | Inl _ \<Rightarrow> max_id_loop rest max_id)"

definition get_next_id :: "dict list \<Rightarrow> int" where
  "get_next_id questions = max_id_loop questions 0 + 1"

section \<open>Evaluation (core/evaluator.py, llm/llm\_client.py)\<close>







section \<open>Selection (core/selector.py)\<close>









section \<open>The question store (core/quiz\_manager.py)\<close>

text \<open>
  Questions are objects that the store, the selector and the session share, and the
  store mutates them in place. An object is a reference into a heap; the manager holds
  the list of references \<^verbatim>\<open>self._questions\<close>; the file holds the dicts last saved.
\<close>

type_synonym ref = nat

record world =
  heap :: "ref \<Rightarrow> Question"
  manager_questions :: "ref list"
  questions_file :: "dict list"

definition persist :: "world \<Rightarrow> world" where
  "persist w = w\<lparr>questions_file := map (\<lambda>r. as_dict (heap w r)) (manager_questions w)\<rparr>"

fun assign_ids :: "world \<Rightarrow> ref list \<Rightarrow> int \<Rightarrow> world" where
  "assign_ids w [] next_id = w"
| "assign_ids w (r # rs) next_id =
     assign_ids
       (w\<lparr>heap := (heap w)(r := (heap w r)\<lparr>id' := next_id\<rparr>),
          manager_questions := manager_questions w @ [r]\<rparr>)
       rs (next_id + 1)"

definition add_questions :: "world \<Rightarrow> ref list \<Rightarrow> world" where
  "add_questions w new_questions =
     persist (assign_ids w new_questions
       (get_next_id (map (\<lambda>r. as_dict (heap w r)) (manager_questions w))))"

definition record_result :: "world \<Rightarrow> ref \<Rightarrow> bool \<Rightarrow> world" where
  "record_result w r is_correct =
     (let q = (heap w r)\<lparr>times_shown := times_shown (heap w r) + 1\<rparr>;
          q' = (if is_correct then q\<lparr>correct_count := correct_count q + 1\<rparr>
                else q\<lparr>incorrect_count := incorrect_count q + 1\<rparr>)
      in persist (w\<lparr>heap := (heap w)(r := q')\<rparr>))"

section \<open>Well-formed records and canonical type tags\<close>

text \<open>
  The type tag of a question is canonical when it is in lower case and is
  \<open>multiple-choice\<close> exactly for an \<^verbatim>\<open>MCQQuestion\<close>. Every question that \<^verbatim>\<open>from_dict\<close>
  builds has a canonical tag.
\<close>

definition canonical_type :: "Question \<Rightarrow> bool" where
  "canonical_type q \<longleftrightarrow>
     lower (type q) = type q \<and> (is_mcq q \<longleftrightarrow> type q = ''multiple-choice'')"

text \<open>
  The shapes of values that the conversions of \<^verbatim>\<open>from_dict\<close> accept: a type tag is a str
  or a false value (\<open>None\<close>, \<open>False\<close>, 0, an empty list or dict); a number is an int, a
  bool or a str that reads as a decimal integer; the options are a false value or
  something \<^verbatim>\<open>list\<close> can iterate.
\<close>

fun tag_like :: "pyval \<Rightarrow> bool" where
  "tag_like (PStr s) = True"
| "tag_like v = (\<not> truthy v)"



definition tagged_mcq :: "dict \<Rightarrow> bool" where
  "tagged_mcq d \<longleftrightarrow>
     (case map_of d ''type'' of Some (PStr s) \<Rightarrow> lower s = ''multiple-choice'' | _ \<Rightarrow> False)"


section \<open>Sample data\<close>


definition essay_question :: Question where
  "essay_question =
     \<lparr>id' = 0, topic = ''pytest'', type = ''freeform'',
      question = ''How does pytest find tests?'', source = ''LLM'', active = True,
      times_shown = 3, correct_count = 2, incorrect_count = 1,
      variant = FreeformQuestion ''By the test_ prefix.''\<rparr>"

text \<open>
  A store of three questions with the ids 1, 3, 2 (objects 0, 1, 2); the objects from 3 on
  are questions not yet added, with id 0.
\<close>

definition demo_world :: world where
  "demo_world =
     \<lparr>heap = (\<lambda>r. essay_question
                 \<lparr>id' := (if r = 0 then 1 else if r = 1 then 3 else if r = 2 then 2 else 0)\<rparr>),
      manager_questions = [0, 1, 2],
      questions_file = []\<rparr>"





section \<open>Whitespace and case\<close>



lemma lower_idem: "lower (lower s) = lower s"
  by (simp add: lower_def lower_char_def)

section \<open>Evaluating a multiple-choice answer\<close>



section \<open>Recording a result\<close>

text \<open>
  Claim C7. \<^verbatim>\<open>record_result\<close> adds one to \<open>times_shown\<close>, adds one to \<open>correct_count\<close>
  when the answer was correct and to \<open>incorrect_count\<close> otherwise, and changes no other
  field of the question; so \<open>times_shown = correct_count + incorrect_count\<close> holds after
  the call whenever it held before.
\<close>

theorem record_result_counts:
  "heap (record_result w r is_correct) r =
     (heap w r)\<lparr>times_shown := times_shown (heap w r) + 1,
                correct_count := correct_count (heap w r) + (if is_correct then 1 else 0),
                incorrect_count := incorrect_count (heap w r) + (if is_correct then 0 else 1)\<rparr>
   \<and> (times_shown (heap w r) = correct_count (heap w r) + incorrect_count (heap w r) \<longrightarrow>
        times_shown (heap (record_result w r is_correct) r) =
          correct_count (heap (record_result w r is_correct) r) +
          incorrect_count (heap (record_result w r is_correct) r))"
  by (simp add: record_result_def persist_def Let_def)

theorem record_result_counts_witness:
  "times_shown (heap demo_world 0) =
     correct_count (heap demo_world 0) + incorrect_count (heap demo_world 0)
   \<and> times_shown (heap (record_result demo_world 0 True) 0) = 4
   \<and> correct_count (heap (record_result demo_world 0 True) 0) = 3
   \<and> incorrect_count (heap (record_result demo_world 0 True) 0) = 1"
  using record_result_counts [of demo_world 0 True]
  by (simp add: demo_world_def essay_question_def)

section \<open>The next identifier\<close>

lemma finite_valid_ids:
  "finite {n. \<exists>q\<in>set qs. py_int (dict_get q ''id'' (PInt 0)) = Inr n}"
proof -
  have "{n. \<exists>q\<in>set qs. py_int (dict_get q ''id'' (PInt 0)) = Inr n}
          \<subseteq> (\<lambda>q. projr (py_int (dict_get q ''id'' (PInt 0)))) ` set qs"
    by force
  then show ?thesis by (rule finite_subset) simp
qed

lemma max_id_loop_Max:
  "max_id_loop qs m = Max (insert m {n. \<exists>q\<in>set qs. py_int (dict_get q ''id'' (PInt 0)) = Inr n})"
proof (induction qs arbitrary: m)
  case Nil
  then show ?case by simp
next
  case (Cons q qs)
  let ?S = "{n. \<exists>q\<in>set qs. py_int (dict_get q ''id'' (PInt 0)) = Inr n}"
  have fin: "finite ?S" by (rule finite_valid_ids)
  show ?case
  proof (cases "py_int (dict_get q ''id'' (PInt 0))")
    case (Inl e)
    then have "{n. \<exists>q\<in>set (q # qs). py_int (dict_get q ''id'' (PInt 0)) = Inr n} = ?S" by auto
    with Inl Cons.IH show ?thesis by simp
  next
    case (Inr qid)
    then have eq: "{n. \<exists>q\<in>set (q # qs). py_int (dict_get q ''id'' (PInt 0)) = Inr n} = insert qid ?S"
      by auto
    have "max_id_loop (q # qs) m = Max (insert (max qid m) ?S)"
      using Inr Cons.IH by (simp add: max_def)
    also have "\<dots> = Max (insert m (insert qid ?S))"
      using fin by (cases "?S = {}") (auto simp: max.commute max.left_commute)
    finally show ?thesis using eq by simp
  qed
qed




section \<open>Adding questions to the store\<close>

lemma map_of_as_dict_id: "map_of (as_dict q) ''id'' = Some (PInt (id' q))"
  by (simp add: as_dict_def base_as_dict_def Let_def update_conv' split: variant.splits)

lemma get_next_id_as_dict:
  "get_next_id (map as_dict qs) = Max (insert 0 (id' ` set qs)) + 1"
proof -
  have "{n. \<exists>d\<in>set (map as_dict qs). py_int (dict_get d ''id'' (PInt 0)) = Inr n} = id' ` set qs"
    by (auto simp: dict_get_def map_of_as_dict_id)
  then show ?thesis by (simp add: get_next_id_def max_id_loop_Max)
qed

lemma assign_ids_list: "manager_questions (assign_ids w rs k) = manager_questions w @ rs"
  by (induction w rs k rule: assign_ids.induct) simp_all

lemma assign_ids_file: "questions_file (assign_ids w rs k) = questions_file w"
  by (induction w rs k rule: assign_ids.induct) simp_all

lemma assign_ids_other: "r \<notin> set rs \<Longrightarrow> heap (assign_ids w rs k) r = heap w r"
  by (induction w rs k rule: assign_ids.induct) auto

lemma assign_ids_new:
  "distinct rs \<Longrightarrow> i < length rs \<Longrightarrow>
     heap (assign_ids w rs k) (rs ! i) = (heap w (rs ! i))\<lparr>id' := k + int i\<rparr>"
proof (induction w rs k arbitrary: i rule: assign_ids.induct)
  case (1 w next_id)
  then show ?case by simp
next
  case (2 w r rs next_id)
  show ?case
  proof (cases i)
    case 0
    then show ?thesis using "2.prems" by (simp add: assign_ids_other)
  next
    case (Suc j)
    then show ?thesis using "2.prems" "2.IH" [of j] by (auto simp: algebra_simps)
  qed
qed

text \<open>
  Claim C9. \<^verbatim>\<open>add_questions\<close> on a store whose largest id is \<open>m\<close> (0 for a store without
  a positive id) gives the \<open>k\<close> new questions, which are \<open>k\<close> different objects, the ids
  \<open>m + 1, \<dots>, m + k\<close> in input order, changes no other field of them, appends them to the
  store's list in input order, changes no object that is not among the new ones (so no
  question already in the store), and saves the whole store. For a store with the ids
  1, 3, 2 the new ids are 4, 5, 6.
\<close>

theorem add_questions_ids:
  assumes "distinct new_questions"
  shows "manager_questions (add_questions w new_questions) = manager_questions w @ new_questions
    \<and> (\<forall>i<length new_questions.
          heap (add_questions w new_questions) (new_questions ! i) =
            (heap w (new_questions ! i))
              \<lparr>id' := Max (insert 0 ((\<lambda>r. id' (heap w r)) ` set (manager_questions w))) + 1 + int i\<rparr>)
    \<and> (\<forall>r. r \<notin> set new_questions \<longrightarrow> heap (add_questions w new_questions) r = heap w r)
    \<and> questions_file (add_questions w new_questions) =
        map (\<lambda>r. as_dict (heap (add_questions w new_questions) r)) (manager_questions w @ new_questions)"
proof -
  have next_id: "get_next_id (map (\<lambda>r. as_dict (heap w r)) (manager_questions w)) =
      Max (insert 0 ((\<lambda>r. id' (heap w r)) ` set (manager_questions w))) + 1"
    using get_next_id_as_dict [of "map (heap w) (manager_questions w)"]
    by (simp add: comp_def image_image)
  show ?thesis
    using assms
    by (simp add: add_questions_def persist_def next_id assign_ids_list assign_ids_new assign_ids_other)
qed

theorem add_questions_ids_witness:
  "distinct [3, 4, 5 :: nat]
   \<and> map (\<lambda>r. id' (heap demo_world r)) (manager_questions demo_world) = [1, 3, 2]
   \<and> map (\<lambda>r. id' (heap (add_questions demo_world [3, 4, 5]) r))
        (manager_questions (add_questions demo_world [3, 4, 5])) = [1, 3, 2, 4, 5, 6]"
proof -
  have d: "distinct [3, 4, 5 :: nat]" by simp
  have m: "Max (insert 0 ((\<lambda>r. id' (heap demo_world r)) ` set (manager_questions demo_world))) = 3"
    by (simp add: demo_world_def essay_question_def)
  have old: "map (\<lambda>r. id' (heap demo_world r)) (manager_questions demo_world) = [1, 3, 2]"
    by (simp add: demo_world_def essay_question_def)
  note t = add_questions_ids [OF d, of demo_world, unfolded m]
  have l: "manager_questions (add_questions demo_world [3, 4, 5]) = [0, 1, 2, 3, 4, 5]"
    using t by (simp add: demo_world_def)
  have n3: "id' (heap (add_questions demo_world [3, 4, 5]) 3) = 4"
    using t by (auto dest!: spec [of _ 0])
  have n4: "id' (heap (add_questions demo_world [3, 4, 5]) 4) = 5"
    using t by (auto dest!: spec [of _ 1])
  have n5: "id' (heap (add_questions demo_world [3, 4, 5]) 5) = 6"
    using t by (auto dest!: spec [of _ 2])
  have o: "\<And>r. r \<notin> set [3, 4, 5] \<Longrightarrow> heap (add_questions demo_world [3, 4, 5]) r = heap demo_world r"
    using t by blast
  show ?thesis using d old by (simp add: l n3 n4 n5 o) (simp add: demo_world_def essay_question_def)
qed

section \<open>Weighted selection\<close>










section \<open>Sampling without replacement\<close>






section \<open>Serializing and rebuilding a question\<close>

lemma lower_Nil [simp]: "lower [] = []"
  by (simp add: lower_def)

lemma py_lower_tag [simp]: "py_lower (py_or (PStr t) (PStr '''')) = Inr (lower t)"
  by (simp add: py_or_def)

lemma py_list_options [simp]: "py_list (py_or (PList xs) (PList [])) = Inr xs"
  by (simp add: py_or_def)








lemma from_dict_canonical: "from_dict d = Inr q \<Longrightarrow> canonical_type q"
  by (auto simp: from_dict_def base_kwargs_def and_then_def canonical_type_def is_mcq_def
                 lower_idem
           split: sum.splits if_splits elim!: py_lower.elims)

section \<open>Rebuilding from an arbitrary record\<close>




lemma tag_value:
  "py_lower (py_or (dict_get d ''type'' PNone) (PStr '''')) = Inr t \<Longrightarrow>
     (t = ''multiple-choice'' \<longleftrightarrow> tagged_mcq d)"
proof (cases "map_of d ''type''")
  case None
  then show "py_lower (py_or (dict_get d ''type'' PNone) (PStr '''')) = Inr t \<Longrightarrow> ?thesis"
    by (auto simp: dict_get_def py_or_def tagged_mcq_def)
next
  case (Some v)
  then show "py_lower (py_or (dict_get d ''type'' PNone) (PStr '''')) = Inr t \<Longrightarrow> ?thesis"
    by (cases v) (auto simp: dict_get_def py_or_def tagged_mcq_def split: if_splits)
qed

lemma tagged_mcq_iff:
  "tagged_mcq d \<longleftrightarrow> (\<exists>s. map_of d ''type'' = Some (PStr s) \<and> lower s = ''multiple-choice'')"
  by (auto simp: tagged_mcq_def split: option.splits pyval.splits)







lemma from_dict_variant:
  assumes "from_dict d = Inr q"
  shows "variant q =
           (if tagged_mcq d then
              MCQQuestion (projr (py_list (py_or (dict_get d ''options'' (PList [])) (PList []))))
                (py_str (dict_get d ''correct_answer'' (PStr '''')))
                (dict_get d ''explanation'' PNone)
            else FreeformQuestion (py_str (dict_get d ''reference_answer'' (PStr ''''))))"
proof -
  obtain t where t: "py_lower (py_or (dict_get d ''type'' PNone) (PStr '''')) = Inr t"
    using assms by (auto simp: from_dict_def and_then_def split: sum.splits)
  note tag = tag_value [OF t]
  show ?thesis
    using assms t tag
    by (auto simp: from_dict_def base_kwargs_def and_then_def split: sum.splits if_splits)
qed

lemma from_dict_is_mcq: "from_dict d = Inr q \<Longrightarrow> is_mcq q \<longleftrightarrow> tagged_mcq d"
  by (simp add: from_dict_variant is_mcq_def)







text \<open>
  Claim C5, amended. Whenever \<^verbatim>\<open>from_dict\<close> returns, the question is an \<^verbatim>\<open>MCQQuestion\<close>
  exactly when the type value of the record is a str that is \<open>multiple-choice\<close> once
  lower-cased; for every other tag, such as \<open>mcq\<close>, and for an absent or false type value
  it is a \<^verbatim>\<open>FreeformQuestion\<close>. A type value that is neither a str nor false raises
  \<^verbatim>\<open>AttributeError\<close>.
\<close>

theorem from_dict_dispatch:
  "(from_dict d = Inr q \<longrightarrow>
      (is_mcq q \<longleftrightarrow> (\<exists>s. map_of d ''type'' = Some (PStr s) \<and> lower s = ''multiple-choice'')))
   \<and> (map_of d ''type'' = Some v \<and> \<not> tag_like v \<longrightarrow> from_dict d = Inl AttributeError)
   \<and> from_dict [(''type'', PStr ''mcq'')] =
       Inr \<lparr>id' = 0, topic = '''', type = ''mcq'', question = '''', source = ''LLM'', active = True,
            times_shown = 0, correct_count = 0, incorrect_count = 0,
            variant = FreeformQuestion ''''\<rparr>"
proof (intro conjI impI)
  assume "from_dict d = Inr q"
  then show "is_mcq q \<longleftrightarrow> (\<exists>s. map_of d ''type'' = Some (PStr s) \<and> lower s = ''multiple-choice'')"
    by (simp add: from_dict_is_mcq tagged_mcq_iff)
next
  assume a: "map_of d ''type'' = Some v \<and> \<not> tag_like v"
  then have "py_lower (py_or (dict_get d ''type'' PNone) (PStr '''')) = Inl AttributeError"
    by (cases v) (auto simp: dict_get_def py_or_def)
  then show "from_dict d = Inl AttributeError" by (simp add: from_dict_def and_then_def)
next
  show "from_dict [(''type'', PStr ''mcq'')] =
       Inr \<lparr>id' = 0, topic = '''', type = ''mcq'', question = '''', source = ''LLM'', active = True,
            times_shown = 0, correct_count = 0, incorrect_count = 0,
            variant = FreeformQuestion ''''\<rparr>"
    by (simp add: from_dict_def base_kwargs_def and_then_def dict_get_def py_or_def
                  lower_def lower_char_def)
qed

theorem from_dict_dispatch_witness:
  "from_dict [(''type'', PStr ''MULTIPLE-choice''), (''correct_answer'', PStr ''Paris'')] =
       Inr \<lparr>id' = 0, topic = '''', type = ''multiple-choice'', question = '''', source = ''LLM'',
            active = True, times_shown = 0, correct_count = 0, incorrect_count = 0,
            variant = MCQQuestion [] ''Paris'' PNone\<rparr>
   \<and> is_mcq \<lparr>id' = 0, topic = '''', type = ''multiple-choice'', question = '''', source = ''LLM'',
            active = True, times_shown = 0, correct_count = 0, incorrect_count = 0,
            variant = MCQQuestion [] ''Paris'' PNone\<rparr>
   \<and> lower ''MULTIPLE-choice'' = ''multiple-choice''
   \<and> map_of [(''type'', PInt 5)] ''type'' = Some (PInt 5) \<and> \<not> tag_like (PInt 5)
   \<and> from_dict [(''type'', PInt 5)] = Inl AttributeError"
proof -
  let ?d = "[(''type'', PStr ''MULTIPLE-choice''), (''correct_answer'', PStr ''Paris'')]"
  let ?q = "\<lparr>id' = 0, topic = '''', type = ''multiple-choice'', question = '''', source = ''LLM'',
            active = True, times_shown = 0, correct_count = 0, incorrect_count = 0,
            variant = MCQQuestion [] ''Paris'' PNone\<rparr>"
  have r: "from_dict ?d = Inr ?q"
    by (simp add: from_dict_def base_kwargs_def and_then_def dict_get_def py_or_def
                  lower_def lower_char_def)
  have low: "lower ''MULTIPLE-choice'' = ''multiple-choice''"
    by (simp add: lower_def lower_char_def)
  have m: "map_of [(''type'', PInt 5)] ''type'' = Some (PInt 5) \<and> \<not> tag_like (PInt 5)" by simp
  show ?thesis
    using r low m from_dict_dispatch [of ?d ?q "PInt 5"]
          from_dict_dispatch [of "[(''type'', PInt 5)]" ?q "PInt 5"]
    by simp
qed

text \<open>
  The claim as first stated, an \<^verbatim>\<open>MCQQuestion\<close> only for the literal tag, fails for the
  tag \<open>Multiple-Choice\<close>, which is not the literal and still gives an \<^verbatim>\<open>MCQQuestion\<close>.
\<close>

theorem from_dict_capitalised_tag_counterexample:
  "''Multiple-Choice'' \<noteq> ''multiple-choice''
   \<and> from_dict [(''type'', PStr ''Multiple-Choice'')] =
     Inr \<lparr>id' = 0, topic = '''', type = ''multiple-choice'', question = '''', source = ''LLM'',
          active = True, times_shown = 0, correct_count = 0, incorrect_count = 0,
          variant = MCQQuestion [] '''' PNone\<rparr>"
  by (simp add: from_dict_def base_kwargs_def and_then_def dict_get_def py_or_def
                lower_def lower_char_def)

section \<open>Evaluating a freeform answer\<close>




lemma strip_Nil [simp]: "strip [] = []"
  by (simp add: strip_def)







end
